theory Spec2Isabelle
  imports Main "HOL-Library.Sublist" "HOL-Library.Stream" "HOL-Library.AList"
    "HOL-Library.Multiset"
begin

section \<open>Python values, exceptions and library functions used by flaresolverr.py\<close>

text \<open>
  The exceptions that the modelled lines of \<^verbatim>\<open>src/flaresolverr.py\<close> can raise.
\<close>

datatype exn = NameError | AttributeError | TypeError | ValueError | KeyError

text \<open>
  The values a decoded JSON body can hold (\<^verbatim>\<open>request.json\<close>; \<^verbatim>\<open>None\<close> when the request
  carries no JSON body). A dict keeps its insertion order, so it is an association list
  with unique keys, updated with \<^const>\<open>AList.update\<close>. JSON floats are left out: no
  modelled line computes with a number.
\<close>

datatype pyval =
    PyNone
  | PyBool bool
  | PyInt int
  | PyStr string
  | PyList "pyval list"
  | PyDict "(string \<times> pyval) list"

text \<open>Python truthiness, as used by \<^verbatim>\<open>request.json or {}\<close>.\<close>

fun truthy :: "pyval \<Rightarrow> bool" where
  "truthy PyNone = False"
| "truthy (PyBool b) = b"
| "truthy (PyInt i) = (i \<noteq> 0)"
| "truthy (PyStr s) = (s \<noteq> [])"
| "truthy (PyList xs) = (xs \<noteq> [])"
| "truthy (PyDict al) = (al \<noteq> [])"

text \<open>
  \<^verbatim>\<open>obj[key] = value\<close> with a string key: a dict stores the value, every other JSON value
  raises \<^verbatim>\<open>TypeError\<close> (a list wants integer indices; strings, numbers, booleans and
  \<^verbatim>\<open>None\<close> do not support item assignment).
\<close>

fun setitem :: "pyval \<Rightarrow> string \<Rightarrow> pyval \<Rightarrow> exn + pyval" where
  "setitem (PyDict al) k v = Inr (PyDict (AList.update k v al))"
| "setitem _ k v = Inl TypeError"

text \<open>
  \<^verbatim>\<open>str.replace(old, new)\<close>: every non-overlapping occurrence of \<^verbatim>\<open>old\<close>, found scanning
  from the left, is replaced. With an empty \<^verbatim>\<open>old\<close>, \<^verbatim>\<open>new\<close> is inserted before every
  character and at the end.
\<close>

fun replace_scan :: "char \<Rightarrow> string \<Rightarrow> string \<Rightarrow> string \<Rightarrow> string" where
  "replace_scan c cs new [] = []"
| "replace_scan c cs new (x # xs) =
     (if x = c \<and> prefix cs xs
      then new @ replace_scan c cs new (drop (length cs) xs)
      else x # replace_scan c cs new xs)"

definition replace :: "string \<Rightarrow> string \<Rightarrow> string \<Rightarrow> string" where
  "replace s old new =
     (case old of
        [] \<Rightarrow> new @ concat (map (\<lambda>x. x # new) s)
      | c # cs \<Rightarrow> replace_scan c cs new s)"

text \<open>\<^verbatim>\<open>str(n)\<close> of a non-negative integer, as the f-strings format it: decimal digits.\<close>

definition digit_char :: "nat \<Rightarrow> char" where
  "digit_char d = char_of (48 + d)"

fun str_nat :: "nat \<Rightarrow> string" where
  "str_nat n = (if n < 10 then [digit_char n] else str_nat (n div 10) @ [digit_char (n mod 10)])"

declare str_nat.simps [simp del]

subsection \<open>The random module\<close>

text \<open>
  The generator's state is the stream of raw draws it will still produce.
  \<^verbatim>\<open>_randbelow(n)\<close> consumes one draw and returns a number below \<^verbatim>\<open>n\<close>.
\<close>

type_synonym rng = "nat stream"

definition randbelow :: "nat \<Rightarrow> rng \<Rightarrow> nat \<times> rng" where
  "randbelow n g = (shd g mod n, stl g)"

text \<open>
  \<^verbatim>\<open>random.sample(population, k)\<close>, the library's pool loop:
  \<^verbatim>\<open>
  pool = list(population)
  for i in range(k):
      j = randbelow(n - i)
      result[i] = pool[j]
      pool[j] = pool[n - i - 1]
  \<close>
  After step \<^verbatim>\<open>i\<close> only the first \<^verbatim>\<open>n - i - 1\<close> cells of the pool are read again, so the
  model drops the last cell. The library raises \<^verbatim>\<open>ValueError\<close> when \<^verbatim>\<open>k\<close> exceeds the
  population. For large populations the library draws indices and rejects repeated ones
  instead; the lists it can return are the same, and the model uses the pool loop for
  every size.
\<close>

fun sample_loop :: "'a list \<Rightarrow> nat \<Rightarrow> rng \<Rightarrow> 'a list \<times> rng" where
  "sample_loop pool 0 g = ([], g)"
| "sample_loop pool (Suc k) g =
     (let (j, g1) = randbelow (length pool) g;
          (rest, g2) = sample_loop (butlast (pool[j := last pool])) k g1
      in (pool ! j # rest, g2))"

definition random_sample :: "'a list \<Rightarrow> nat \<Rightarrow> rng \<Rightarrow> (exn + 'a list) \<times> rng" where
  "random_sample population k g =
     (if length population < k then (Inl ValueError, g)
      else (let (result, g1) = sample_loop population k g in (Inr result, g1)))"

text \<open>\<^verbatim>\<open>random.choice(seq)\<close> on a non-empty sequence: \<^verbatim>\<open>seq[randbelow(len(seq))]\<close>.\<close>

definition random_choice :: "'a list \<Rightarrow> rng \<Rightarrow> 'a \<times> rng" where
  "random_choice seq g = (let (j, g1) = randbelow (length seq) g in (seq ! j, g1))"

section \<open>Process state\<close>

text \<open>
  The module globals \<^verbatim>\<open>PROXY_POOL\<close> and \<^verbatim>\<open>DOMAIN_PROXIES\<close>, and the state of the random
  generator. Every key ever stored in \<^verbatim>\<open>DOMAIN_PROXIES\<close> is the \<^verbatim>\<open>netloc\<close> string of a
  parsed URL.
\<close>

record world =
  PROXY_POOL :: "string list"
  DOMAIN_PROXIES :: "string \<rightharpoonup> string list"
  rng_state :: rng

definition initial_world :: "rng \<Rightarrow> world" where
  "initial_world g = \<lparr>PROXY_POOL = [], DOMAIN_PROXIES = Map.empty, rng_state = g\<rparr>"

section \<open>discover_proxies\<close>

text \<open>
  The probe of host \<^verbatim>\<open>10.0.x.1\<close> either connects or raises; \<open>connect x\<close> says which.
  The loop appends the URL of every host that connects, in the order of \<^verbatim>\<open>range(120)\<close>,
  and the result replaces \<^verbatim>\<open>PROXY_POOL\<close>.
\<close>

definition proxy_url :: "nat \<Rightarrow> string" where
  "proxy_url x = ''http://'' @ (''10.0.'' @ str_nat x @ ''.1'') @ '':'' @ str_nat 8888"

definition probe_all :: "(nat \<Rightarrow> bool) \<Rightarrow> string list" where
  "probe_all connect =
     foldl (\<lambda>proxies x. if connect x then proxies @ [proxy_url x] else proxies) [] [0..<120]"

definition discover_proxies :: "(nat \<Rightarrow> bool) \<Rightarrow> world \<Rightarrow> world" where
  "discover_proxies connect w = w\<lparr>PROXY_POOL := probe_all connect\<rparr>"

section \<open>controller_v1, up to the call of the dispatcher\<close>

record request =
  req_url :: string
  req_json :: pyval

text \<open>
  Lines 80 to 83, the creation of an assignment: ten endpoints sampled from a pool of at
  least ten, a copy of the whole pool otherwise, stored under the domain.
\<close>

definition create_assignment :: "string \<Rightarrow> world \<Rightarrow> exn + world" where
  "create_assignment domain w =
     (if length (PROXY_POOL w) \<ge> 10 then
        (case random_sample (PROXY_POOL w) 10 (rng_state w) of
           (Inl e, g1) \<Rightarrow> Inl e
         | (Inr result, g1) \<Rightarrow>
             Inr (w\<lparr>DOMAIN_PROXIES := (DOMAIN_PROXIES w)(domain \<mapsto> result), rng_state := g1\<rparr>))
      else Inr (w\<lparr>DOMAIN_PROXIES := (DOMAIN_PROXIES w)(domain \<mapsto> PROXY_POOL w)\<rparr>))"

text \<open>Lines 79 to 83: only a domain with no entry gets an assignment.\<close>

definition assign_domain :: "string \<Rightarrow> world \<Rightarrow> exn + world" where
  "assign_domain domain w =
     (if domain \<notin> dom (DOMAIN_PROXIES w) then create_assignment domain w else Inr w)"

text \<open>
  Line 85: \<^verbatim>\<open>random.choice(DOMAIN_PROXIES[domain]) if DOMAIN_PROXIES[domain] else None\<close>.
\<close>

definition pick_proxy :: "string \<Rightarrow> world \<Rightarrow> (exn + string option) \<times> world" where
  "pick_proxy domain w =
     (case DOMAIN_PROXIES w domain of
        None \<Rightarrow> (Inl KeyError, w)
      | Some assigned \<Rightarrow>
          (if assigned \<noteq> [] then
             (let (p, g1) = random_choice assigned (rng_state w)
              in (Inr (Some p), w\<lparr>rng_state := g1\<rparr>))
           else (Inr None, w)))"

text \<open>
  Line 87, the f-string
  \<^verbatim>\<open>f"flaresolverr-{domain.replace('.', '_')}-{proxy.replace('.', '_').replace('http://','')}"\<close>.
  The proxy is \<^verbatim>\<open>None\<close> or a string; \<^verbatim>\<open>None\<close> has no attribute \<^verbatim>\<open>replace\<close>.
\<close>

definition session_key :: "string \<Rightarrow> string option \<Rightarrow> exn + string" where
  "session_key domain proxy =
     (case proxy of
        None \<Rightarrow> Inl AttributeError
      | Some p \<Rightarrow>
          Inr (''flaresolverr-'' @ replace domain ''.'' ''_'' @ ''-''
                 @ replace (replace p ''.'' ''_'') ''http://'' ''''))"

text \<open>
  Modelled from the spec: the class \<^verbatim>\<open>V1RequestBase\<close> of module \<^verbatim>\<open>dtos\<close> is not among the
  sources. The spec describes the object handed to the dispatcher as carrying the
  caller-supplied payload fields unchanged, so the object is its attribute dictionary,
  initialised from the payload.
\<close>

definition V1RequestBase :: "(string \<times> pyval) list \<Rightarrow> (string \<times> pyval) list" where
  "V1RequestBase payload = payload"

text \<open>
  Lines 68 to 96. The result is the exception that leaves the handler, or the request
  object passed to \<^verbatim>\<open>flaresolverr_service.controller_v1_endpoint\<close>; the world is returned
  as the handler leaves it in both cases. \<open>netloc\<close> stands for
  \<^verbatim>\<open>urlparse(request.url).netloc\<close>: the network location, or the exception of the parser.
  When the parser raises, the handler formats a warning that reads the name \<^verbatim>\<open>url\<close>, which
  is bound nowhere in the module, so \<^verbatim>\<open>NameError\<close> leaves the handler.
\<close>

definition controller_v1 ::
  "(string \<Rightarrow> exn + string) \<Rightarrow> request \<Rightarrow> world \<Rightarrow> (exn + (string \<times> pyval) list) \<times> world" where
  "controller_v1 netloc rq w =
     (let payload = (if truthy (req_json rq) then req_json rq else PyDict []) in
      case netloc (req_url rq) of
        Inl e \<Rightarrow> (Inl NameError, w)
      | Inr domain \<Rightarrow>
          (let session_id = (if domain \<noteq> [] then Some ''flaresolverr-default-session'' else None) in
           case setitem payload ''session'' (PyStr domain) of
             Inl e \<Rightarrow> (Inl e, w)
           | Inr payload1 \<Rightarrow>
               (case assign_domain domain w of
                  Inl e \<Rightarrow> (Inl e, w)
                | Inr w1 \<Rightarrow>
                (case pick_proxy domain w1 of
                  (Inl e, w2) \<Rightarrow> (Inl e, w2)
                | (Inr proxy, w2) \<Rightarrow>
                    (case session_key domain proxy of
                       Inl e \<Rightarrow> (Inl e, w2)
                     | Inr session_id \<Rightarrow>
                         (case setitem payload1 ''session'' (PyStr session_id) of
                            Inl e \<Rightarrow> (Inl e, w2)
                          | Inr payload2 \<Rightarrow>
                              (case setitem payload2 ''proxy''
                                      (case proxy of None \<Rightarrow> PyNone | Some p \<Rightarrow> PyStr p) of
                                 Inl e \<Rightarrow> (Inl e, w2)
                               | Inr (PyDict al) \<Rightarrow>
                                   (Inr (AList.update ''url''
                                           (PyStr (replace (req_url rq) ''http'' ''https''))
                                           (V1RequestBase al)), w2)
                               | Inr _ \<Rightarrow> (Inl TypeError, w2))))))))"

text \<open>
  The same handler with the first computation of the session removed, as the spec's
  design notes ask: no \<^verbatim>\<open>session_id = 'flaresolverr-default-session'\<close> (line 75) and no
  \<^verbatim>\<open>payload['session'] = domain\<close> (line 76). Everything else is as in \<^const>\<open>controller_v1\<close>.
\<close>

definition controller_v1_without_first_session ::
  "(string \<Rightarrow> exn + string) \<Rightarrow> request \<Rightarrow> world \<Rightarrow> (exn + (string \<times> pyval) list) \<times> world" where
  "controller_v1_without_first_session netloc rq w =
     (let payload = (if truthy (req_json rq) then req_json rq else PyDict []) in
      case netloc (req_url rq) of
        Inl e \<Rightarrow> (Inl NameError, w)
      | Inr domain \<Rightarrow>
               (case assign_domain domain w of
                  Inl e \<Rightarrow> (Inl e, w)
                | Inr w1 \<Rightarrow>
                (case pick_proxy domain w1 of
                  (Inl e, w2) \<Rightarrow> (Inl e, w2)
                | (Inr proxy, w2) \<Rightarrow>
                    (case session_key domain proxy of
                       Inl e \<Rightarrow> (Inl e, w2)
                     | Inr session_id \<Rightarrow>
                         (case setitem payload ''session'' (PyStr session_id) of
                            Inl e \<Rightarrow> (Inl e, w2)
                          | Inr payload2 \<Rightarrow>
                              (case setitem payload2 ''proxy''
                                      (case proxy of None \<Rightarrow> PyNone | Some p \<Rightarrow> PyStr p) of
                                 Inl e \<Rightarrow> (Inl e, w2)
                               | Inr (PyDict al) \<Rightarrow>
                                   (Inr (AList.update ''url''
                                           (PyStr (replace (req_url rq) ''http'' ''https''))
                                           (V1RequestBase al)), w2)
                               | Inr _ \<Rightarrow> (Inl TypeError, w2)))))))"

text \<open>The fields the caller supplied: the items of the JSON body when it is an object.\<close>

definition caller_fields :: "request \<Rightarrow> (string \<times> pyval) list" where
  "caller_fields rq = (case req_json rq of PyDict al \<Rightarrow> al | _ \<Rightarrow> [])"

section \<open>The life of the process\<close>

text \<open>
  What changes the globals: a run of \<^verbatim>\<open>discover_proxies\<close>, or a request handled by
  \<^verbatim>\<open>controller_v1\<close>, whatever its outcome. Here every event is handled to its end
  before the next one begins; requests whose steps interleave are modelled further below.
\<close>

datatype event = Discover "nat \<Rightarrow> bool" | Handle request

fun step :: "(string \<Rightarrow> exn + string) \<Rightarrow> event \<Rightarrow> world \<Rightarrow> world" where
  "step netloc (Discover connect) w = discover_proxies connect w"
| "step netloc (Handle rq) w = snd (controller_v1 netloc rq w)"

fun run :: "(string \<Rightarrow> exn + string) \<Rightarrow> event list \<Rightarrow> world \<Rightarrow> world" where
  "run netloc [] w = w"
| "run netloc (ev # evs) w = run netloc evs (step netloc ev w)"

section \<open>The network location of a URL\<close>

text \<open>
  \<^verbatim>\<open>urlparse(url).netloc\<close> of the standard library, for the concrete requests below: the
  scheme is split off at the first colon when it is well formed; after \<^verbatim>\<open>//\<close> the network
  location runs to the first of \<^verbatim>\<open>/ ? #\<close>; a network location with one square bracket
  but not the other raises \<^verbatim>\<open>ValueError("Invalid IPv6 URL")\<close>.
\<close>

definition scheme_chars :: string where
  "scheme_chars = ''abcdefghijklmnopqrstuvwxyzABCDEFGHIJKLMNOPQRSTUVWXYZ0123456789+-.''"

definition split_scheme :: "string \<Rightarrow> string" where
  "split_scheme url =
     (let i = length (takeWhile (\<lambda>c. c \<noteq> CHR '':'') url) in
      if 0 < i \<and> i < length url \<and> hd url \<in> set (take 52 scheme_chars)
           \<and> list_all (\<lambda>c. c \<in> set scheme_chars) (take i url)
      then drop (Suc i) url else url)"

definition urlparse_netloc :: "string \<Rightarrow> exn + string" where
  "urlparse_netloc url =
     (let rest = split_scheme url in
      if take 2 rest = ''//'' then
        (let nl = takeWhile (\<lambda>c. c \<notin> set ''/?#'') (drop 2 rest) in
         if (CHR ''['' \<in> set nl) \<noteq> (CHR '']'' \<in> set nl) then Inl ValueError else Inr nl)
      else Inr [])"

text \<open>Whether a JSON value is an object, the only kind that accepts \<^verbatim>\<open>payload['session'] = ...\<close>.\<close>

fun is_dict :: "pyval \<Rightarrow> bool" where
  "is_dict (PyDict al) = True"
| "is_dict _ = False"

section \<open>Requests handled by several threads\<close>








section \<open>Facts about the library functions\<close>

lemma str_nat_small: "n < 10 \<Longrightarrow> str_nat n = [digit_char n]"
  by (subst str_nat.simps) simp

lemma str_nat_big: "10 \<le> n \<Longrightarrow> str_nat n = str_nat (n div 10) @ [digit_char (n mod 10)]"
  by (subst str_nat.simps) simp

lemma digit_chars:
  "digit_char 0 = CHR ''0''" "digit_char 1 = CHR ''1''" "digit_char 2 = CHR ''2''"
  "digit_char 3 = CHR ''3''" "digit_char 4 = CHR ''4''" "digit_char 5 = CHR ''5''"
  "digit_char 6 = CHR ''6''" "digit_char 7 = CHR ''7''" "digit_char 8 = CHR ''8''"
  "digit_char 9 = CHR ''9''" "digit_char (Suc 0) = CHR ''1''"
  by code_simp+

lemma str_port: "str_nat 8888 = ''8888''"
  by (simp add: str_nat_small str_nat_big digit_chars)

lemma proxy_url_form: "proxy_url x = ''http://10.0.'' @ str_nat x @ ''.1:8888''"
  by (simp add: proxy_url_def str_port)

lemma foldl_probe:
  "foldl (\<lambda>proxies x. if connect x then proxies @ [f x] else proxies) acc xs
     = acc @ map f (filter connect xs)"
  by (induction xs arbitrary: acc) simp_all

lemma probe_all_eq: "probe_all connect = map proxy_url (filter connect [0..<120])"
  by (simp add: probe_all_def foldl_probe)

lemma filter_below: "n \<le> m \<Longrightarrow> filter (\<lambda>x. x < n) [0..<m] = [0..<n]"
  by (induction m) (auto simp: le_Suc_eq)

lemma probe_first: "n \<le> 120 \<Longrightarrow> probe_all (\<lambda>x. x < n) = map proxy_url [0..<n]"
  by (simp add: probe_all_eq filter_below)

lemma of_char_digit: "d < 10 \<Longrightarrow> (of_char (digit_char d) :: nat) = 48 + d"
  by (simp add: digit_char_def)

lemma str_nat_decode: "foldl (\<lambda>a c. 10 * a + (of_char c - 48)) 0 (str_nat n) = n"
proof (induction n rule: str_nat.induct)
  case (1 n)
  show ?case
  proof (cases "n < 10")
    case True
    then show ?thesis by (simp add: str_nat_small of_char_digit)
  next
    case False
    with 1 have "foldl (\<lambda>a c. 10 * a + (of_char c - 48)) 0 (str_nat (n div 10)) = n div 10"
      by simp
    with False show ?thesis by (simp add: str_nat_big of_char_digit)
  qed
qed

lemma str_nat_inj: "str_nat a = str_nat b \<Longrightarrow> a = b"
  by (metis str_nat_decode)

lemma str_nat_digits: "c \<in> set (str_nat n) \<Longrightarrow> 48 \<le> (of_char c :: nat) \<and> (of_char c :: nat) \<le> 57"
proof (induction n rule: str_nat.induct)
  case (1 n)
  show ?case
  proof (cases "n < 10")
    case True
    with 1(2) show ?thesis by (simp add: str_nat_small of_char_digit)
  next
    case False
    with 1(2) have "c \<in> set (str_nat (n div 10)) \<or> c = digit_char (n mod 10)"
      by (auto simp: str_nat_big)
    then show ?thesis
    proof
      assume "c \<in> set (str_nat (n div 10))"
      with 1(1) False show ?thesis by simp
    next
      assume "c = digit_char (n mod 10)"
      then show ?thesis by (simp add: of_char_digit)
    qed
  qed
qed

lemma proxy_url_inj: "proxy_url x = proxy_url y \<Longrightarrow> x = y"
  by (simp add: proxy_url_form str_nat_inj)

lemma distinct_probe_all: "distinct (probe_all connect)"
  by (simp add: probe_all_eq distinct_map inj_on_def proxy_url_inj)

lemma length_sample_loop: "length (fst (sample_loop pool k g)) = k"
  by (induction k arbitrary: pool g) (simp_all add: split_def Let_def)

lemma last_update_last:
  assumes "j < length pool"
  shows "last (pool[j := last pool]) = last pool"
proof -
  from assms have ne: "pool \<noteq> []" by auto
  then have "last (pool[j := last pool]) = (pool[j := last pool]) ! (length pool - 1)"
    by (simp add: last_conv_nth)
  also have "\<dots> = last pool"
    using ne assms by (cases "j = length pool - 1") (simp_all add: last_conv_nth)
  finally show ?thesis .
qed

lemma mset_sample_step:
  assumes "j < length pool"
  shows "mset (butlast (pool[j := last pool])) = mset pool - {#pool ! j#}"
proof -
  let ?u = "pool[j := last pool]"
  from assms have ne: "?u \<noteq> []" by auto
  have "mset (butlast ?u @ [last ?u]) = mset ?u"
    using ne by simp
  then have "add_mset (last ?u) (mset (butlast ?u)) = mset ?u"
    by simp
  moreover have "mset ?u = add_mset (last pool) (mset pool - {#pool ! j#})"
    using assms by (rule mset_update)
  ultimately show ?thesis using last_update_last[OF assms] by simp
qed

lemma mset_sample_loop:
  "k \<le> length pool \<Longrightarrow> mset (fst (sample_loop pool k g)) \<subseteq># mset pool"
proof (induction k arbitrary: pool g)
  case 0
  then show ?case by simp
next
  case (Suc k)
  let ?j = "shd g mod length pool"
  let ?p = "butlast (pool[?j := last pool])"
  from Suc.prems have "0 < length pool" by (cases pool) simp_all
  then have j: "?j < length pool" by simp
  have "k \<le> length ?p" using Suc.prems by simp
  then have ih: "mset (fst (sample_loop ?p k (stl g))) \<subseteq># mset ?p" by (rule Suc.IH)
  have "pool ! ?j \<in># mset pool" using j by simp
  then have "mset pool = add_mset (pool ! ?j) (mset ?p)"
    using mset_sample_step[OF j] by simp
  with ih show ?case
    by (simp add: randbelow_def split_def Let_def)
qed

lemma distinct_submset:
  assumes "mset xs \<subseteq># mset ys" and "distinct ys"
  shows "distinct xs"
proof -
  have "count (mset xs) a \<le> 1" for a
  proof -
    have "count (mset xs) a \<le> count (mset ys) a"
      using assms(1) by (rule mset_subset_eq_count)
    also have "\<dots> \<le> 1" using assms(2) by (simp add: distinct_count_atmost_1)
    finally show ?thesis .
  qed
  then show ?thesis
    unfolding distinct_count_atmost_1
    by (metis count_mset_0_iff le_antisym less_one linorder_not_le count_greater_eq_one_iff set_mset_mset not_in_iff)
qed

section \<open>The assignment of a domain\<close>

lemma random_sample_ok:
  "k \<le> length pool \<Longrightarrow>
   random_sample pool k g = (Inr (fst (sample_loop pool k g)), snd (sample_loop pool k g))"
  by (simp add: random_sample_def split_def Let_def)

text \<open>
  C1. A domain with no entry gets one. From a discovered pool of at least ten endpoints
  the assignment is a sample of exactly ten distinct endpoints, drawn without replacement
  (a sub-multiset of the pool); from a smaller pool it is the whole pool. In both cases
  it is a subset of the pool with \<open>min 10 (length pool)\<close> elements.
\<close>

theorem create_assignment_sample:
  assumes pool: "PROXY_POOL w = probe_all connect"
    and unseen: "domain \<notin> dom (DOMAIN_PROXIES w)"
  shows "\<exists>w1 assigned.
           assign_domain domain w = Inr w1 \<and> DOMAIN_PROXIES w1 domain = Some assigned
         \<and> (if 10 \<le> length (PROXY_POOL w)
              then length assigned = 10 \<and> distinct assigned
                   \<and> mset assigned \<subseteq># mset (PROXY_POOL w)
              else assigned = PROXY_POOL w)
         \<and> set assigned \<subseteq> set (PROXY_POOL w)
         \<and> card (set assigned) = min 10 (length (PROXY_POOL w))"
proof (cases "10 \<le> length (PROXY_POOL w)")
  case True
  let ?s = "fst (sample_loop (PROXY_POOL w) 10 (rng_state w))"
  let ?g = "snd (sample_loop (PROXY_POOL w) 10 (rng_state w))"
  let ?w1 = "w\<lparr>DOMAIN_PROXIES := (DOMAIN_PROXIES w)(domain \<mapsto> ?s), rng_state := ?g\<rparr>"
  have d: "distinct (PROXY_POOL w)" using pool by (simp add: distinct_probe_all)
  have run: "assign_domain domain w = Inr ?w1"
    using True unseen by (simp add: assign_domain_def create_assignment_def random_sample_ok)
  have len: "length ?s = 10" by (rule length_sample_loop)
  have sub: "mset ?s \<subseteq># mset (PROXY_POOL w)" using True by (rule mset_sample_loop)
  have dis: "distinct ?s" using sub d by (rule distinct_submset)
  have setsub: "set ?s \<subseteq> set (PROXY_POOL w)" using set_mset_mono[OF sub] by simp
  have card: "card (set ?s) = min 10 (length (PROXY_POOL w))"
    using dis len True by (simp add: distinct_card)
  have "DOMAIN_PROXIES ?w1 domain = Some ?s" by simp
  with run True len dis sub setsub card show ?thesis by auto
next
  case False
  let ?w1 = "w\<lparr>DOMAIN_PROXIES := (DOMAIN_PROXIES w)(domain \<mapsto> PROXY_POOL w)\<rparr>"
  have d: "distinct (PROXY_POOL w)" using pool by (simp add: distinct_probe_all)
  have run: "assign_domain domain w = Inr ?w1"
    using False unseen by (simp add: assign_domain_def create_assignment_def)
  have card: "card (set (PROXY_POOL w)) = min 10 (length (PROXY_POOL w))"
    using d False by (simp add: distinct_card)
  have "DOMAIN_PROXIES ?w1 domain = Some (PROXY_POOL w)" by simp
  with run False card show ?thesis by auto
qed

lemma length_probe_first: "n \<le> 120 \<Longrightarrow> length (probe_all (\<lambda>x. x < n)) = n"
  by (simp add: probe_first)

theorem create_assignment_sample_witness:
  "(\<exists>w1 assigned.
      assign_domain ''example.com'' (discover_proxies (\<lambda>x. x < 12) (initial_world (sconst 0))) = Inr w1
    \<and> DOMAIN_PROXIES w1 ''example.com'' = Some assigned
    \<and> length assigned = 10 \<and> distinct assigned
    \<and> set assigned \<subseteq> set (probe_all (\<lambda>x. x < 12)) \<and> card (set assigned) = 10)
   \<and> (\<exists>w1.
      assign_domain ''example.com'' (discover_proxies (\<lambda>x. x < 3) (initial_world (sconst 0))) = Inr w1
    \<and> DOMAIN_PROXIES w1 ''example.com'' = Some (probe_all (\<lambda>x. x < 3))
    \<and> card (set (probe_all (\<lambda>x. x < 3))) = 3)"
proof
  let ?w = "discover_proxies (\<lambda>x. x < 12) (initial_world (sconst 0))"
  have p: "PROXY_POOL ?w = probe_all (\<lambda>x. x < 12)" by (simp add: discover_proxies_def)
  have u: "''example.com'' \<notin> dom (DOMAIN_PROXIES ?w)"
    by (simp add: discover_proxies_def initial_world_def)
  have l: "length (PROXY_POOL ?w) = 12" by (simp add: p length_probe_first)
  show "\<exists>w1 assigned. assign_domain ''example.com'' ?w = Inr w1
       \<and> DOMAIN_PROXIES w1 ''example.com'' = Some assigned
       \<and> length assigned = 10 \<and> distinct assigned
       \<and> set assigned \<subseteq> set (probe_all (\<lambda>x. x < 12)) \<and> card (set assigned) = 10"
    using create_assignment_sample[OF p u] l p by auto
next
  let ?w = "discover_proxies (\<lambda>x. x < 3) (initial_world (sconst 0))"
  have p: "PROXY_POOL ?w = probe_all (\<lambda>x. x < 3)" by (simp add: discover_proxies_def)
  have u: "''example.com'' \<notin> dom (DOMAIN_PROXIES ?w)"
    by (simp add: discover_proxies_def initial_world_def)
  have l: "length (PROXY_POOL ?w) = 3" by (simp add: p length_probe_first)
  show "\<exists>w1. assign_domain ''example.com'' ?w = Inr w1
       \<and> DOMAIN_PROXIES w1 ''example.com'' = Some (probe_all (\<lambda>x. x < 3))
       \<and> card (set (probe_all (\<lambda>x. x < 3))) = 3"
    using create_assignment_sample[OF p u] l p by auto
qed

section \<open>The cache over the life of the process\<close>

lemma create_assignment_total: "\<exists>w1. create_assignment d w = Inr w1"
  by (simp add: create_assignment_def random_sample_ok)


lemma assign_domain_total: "\<exists>w1. assign_domain d w = Inr w1"
  using create_assignment_total by (simp add: assign_domain_def)











lemma netloc_example: "urlparse_netloc ''http://example.com/'' = Inr ''example.com''"
  by (simp add: urlparse_netloc_def split_scheme_def scheme_chars_def)


section \<open>Requests that do not reach the dispatcher, and the rewritten URL\<close>

lemma probe_none: "probe_all (\<lambda>x. False) = []"
  by (simp add: probe_all_eq)

lemma upt2: "[0..<2] = [0, 1]"
  by code_simp

lemma probe_two: "probe_all (\<lambda>x. x < 2) = [''http://10.0.0.1:8888'', ''http://10.0.1.1:8888'']"
  by (simp add: probe_first upt2 proxy_url_form str_nat_small digit_chars)

text \<open>
  C3. With an empty pool the handler stores the empty assignment, selects no proxy, and
  then raises \<^verbatim>\<open>AttributeError\<close> at line 87, where the f-string calls \<^verbatim>\<open>replace\<close> on
  \<^verbatim>\<open>None\<close>: no session key is derived and nothing reaches the dispatcher.
\<close>

theorem empty_pool_raises:
  "controller_v1 urlparse_netloc
     \<lparr>req_url = ''http://example.com/'', req_json = PyDict [(''cmd'', PyStr ''request.get'')]\<rparr>
     (discover_proxies (\<lambda>x. False) (initial_world (sconst 0)))
   = (Inl AttributeError,
      \<lparr>PROXY_POOL = [], DOMAIN_PROXIES = [''example.com'' \<mapsto> []], rng_state = sconst 0\<rparr>)"
  by (simp add: controller_v1_def netloc_example assign_domain_def create_assignment_def
      pick_proxy_def session_key_def discover_proxies_def initial_world_def probe_none)

lemma netloc_bracket: "urlparse_netloc ''http://[::1/'' = Inl ValueError"
  by (simp add: urlparse_netloc_def split_scheme_def scheme_chars_def)

text \<open>
  C5. When the parser raises (here \<^verbatim>\<open>ValueError\<close>, for a network location with an opening
  bracket only), the handler of lines 72 and 73 raises \<^verbatim>\<open>NameError\<close> while formatting its
  warning, and that exception leaves \<^verbatim>\<open>controller_v1\<close>.
\<close>

theorem parse_failure_raises:
  "urlparse_netloc ''http://[::1/'' = Inl ValueError
   \<and> controller_v1 urlparse_netloc \<lparr>req_url = ''http://[::1/'', req_json = PyNone\<rparr> w
       = (Inl NameError, w)"
  by (simp add: controller_v1_def netloc_bracket)

lemma netloc_httpbin: "urlparse_netloc ''http://httpbin.org/http'' = Inr ''httpbin.org''"
  by (simp add: urlparse_netloc_def split_scheme_def scheme_chars_def)

text \<open>
  C6. Line 96 replaces every occurrence of \<^verbatim>\<open>http\<close> in the URL, not only the scheme: the
  request for \<^verbatim>\<open>http://httpbin.org/http\<close> is dispatched with the host \<^verbatim>\<open>httpsbin.org\<close> and
  the path \<^verbatim>\<open>/https\<close>.
\<close>

theorem url_rewrite_everywhere:
  "fst (controller_v1 urlparse_netloc
     \<lparr>req_url = ''http://httpbin.org/http'', req_json = PyNone\<rparr>
     (discover_proxies (\<lambda>x. x < 2) (initial_world (sconst 0))))
   = Inr [(''session'', PyStr ''flaresolverr-httpbin_org-10_0_0_1:8888''),
          (''proxy'', PyStr ''http://10.0.0.1:8888''),
          (''url'', PyStr ''https://httpsbin.org/https'')]"
  by (simp add: controller_v1_def netloc_httpbin assign_domain_def create_assignment_def
      pick_proxy_def session_key_def discover_proxies_def initial_world_def probe_two
      random_choice_def randbelow_def replace_def V1RequestBase_def)

section \<open>The payload and the first session value\<close>

lemma payload_dict:
  "is_dict j \<or> \<not> truthy j \<Longrightarrow> (if truthy j then j else PyDict []) = PyDict (case j of PyDict al \<Rightarrow> al | _ \<Rightarrow> [])"
  by (cases j) auto

text \<open>What the handler computes once the payload is known to be a dict.\<close>

lemma controller_v1_on_dict:
  assumes "is_dict (req_json rq) \<or> \<not> truthy (req_json rq)"
    and "netloc (req_url rq) = Inr d"
    and "assign_domain d w = Inr w1"
  shows "controller_v1 netloc rq w =
     (case pick_proxy d w1 of
        (Inl e, w2) \<Rightarrow> (Inl e, w2)
      | (Inr None, w2) \<Rightarrow> (Inl AttributeError, w2)
      | (Inr (Some p), w2) \<Rightarrow>
          (Inr (AList.update ''url'' (PyStr (replace (req_url rq) ''http'' ''https''))
             (AList.update ''proxy'' (PyStr p)
               (AList.update ''session''
                  (PyStr (''flaresolverr-'' @ replace d ''.'' ''_'' @ ''-''
                     @ replace (replace p ''.'' ''_'') ''http://'' ''''))
                  (caller_fields rq)))), w2))"
  using assms(2,3)
  by (simp add: controller_v1_def payload_dict[OF assms(1)] caller_fields_def session_key_def
      V1RequestBase_def Let_def split: prod.splits sum.splits option.splits)

lemma controller_v1_without_on_dict:
  assumes "is_dict (req_json rq) \<or> \<not> truthy (req_json rq)"
    and "netloc (req_url rq) = Inr d"
    and "assign_domain d w = Inr w1"
  shows "controller_v1_without_first_session netloc rq w =
     (case pick_proxy d w1 of
        (Inl e, w2) \<Rightarrow> (Inl e, w2)
      | (Inr None, w2) \<Rightarrow> (Inl AttributeError, w2)
      | (Inr (Some p), w2) \<Rightarrow>
          (Inr (AList.update ''url'' (PyStr (replace (req_url rq) ''http'' ''https''))
             (AList.update ''proxy'' (PyStr p)
               (AList.update ''session''
                  (PyStr (''flaresolverr-'' @ replace d ''.'' ''_'' @ ''-''
                     @ replace (replace p ''.'' ''_'') ''http://'' ''''))
                  (caller_fields rq)))), w2))"
  using assms(2,3)
  by (simp add: controller_v1_without_first_session_def payload_dict[OF assms(1)]
      caller_fields_def session_key_def V1RequestBase_def Let_def
      split: prod.splits sum.splits option.splits)

lemma controller_v1_not_dict:
  assumes "\<not> (is_dict (req_json rq) \<or> \<not> truthy (req_json rq))"
  shows "fst (controller_v1 netloc rq w) = Inl NameError \<or> fst (controller_v1 netloc rq w) = Inl TypeError"
  using assms by (cases "req_json rq") (auto simp: controller_v1_def Let_def split: sum.splits)

text \<open>
  C8. In every request object that reaches the dispatcher, each field other than
  \<^verbatim>\<open>session\<close>, \<^verbatim>\<open>proxy\<close> and \<^verbatim>\<open>url\<close> has the value the caller supplied, and is absent
  when the caller did not supply it.
\<close>

theorem payload_passthrough:
  assumes "controller_v1 netloc rq w = (Inr req, w')"
    and "k \<notin> {''session'', ''proxy'', ''url''}"
  shows "map_of req k = map_of (caller_fields rq) k"
proof -
  have dict: "is_dict (req_json rq) \<or> \<not> truthy (req_json rq)"
    using controller_v1_not_dict[of rq netloc w] assms(1) by auto
  obtain d where d: "netloc (req_url rq) = Inr d"
    using assms(1) by (cases "netloc (req_url rq)") (simp_all add: controller_v1_def)
  obtain w1 where w1: "assign_domain d w = Inr w1" using assign_domain_total by blast
  show ?thesis
    using assms controller_v1_on_dict[where netloc=netloc, OF dict d w1]
    by (auto simp: update_conv' split: prod.splits sum.splits option.splits)
qed

theorem payload_passthrough_witness:
  "fst (controller_v1 urlparse_netloc
     \<lparr>req_url = ''http://httpbin.org/http'',
      req_json = PyDict [(''cmd'', PyStr ''request.get''), (''session'', PyStr ''mine'')]\<rparr>
     (discover_proxies (\<lambda>x. x < 2) (initial_world (sconst 0))))
   = Inr [(''cmd'', PyStr ''request.get''),
          (''session'', PyStr ''flaresolverr-httpbin_org-10_0_0_1:8888''),
          (''proxy'', PyStr ''http://10.0.0.1:8888''),
          (''url'', PyStr ''https://httpsbin.org/https'')]
   \<and> map_of [(''cmd'', PyStr ''request.get''),
          (''session'', PyStr ''flaresolverr-httpbin_org-10_0_0_1:8888''),
          (''proxy'', PyStr ''http://10.0.0.1:8888''),
          (''url'', PyStr ''https://httpsbin.org/https'')] ''cmd''
     = map_of (caller_fields
         \<lparr>req_url = ''http://httpbin.org/http'',
          req_json = PyDict [(''cmd'', PyStr ''request.get''), (''session'', PyStr ''mine'')]\<rparr>)
         ''cmd''"
proof -
  let ?rq = "\<lparr>req_url = ''http://httpbin.org/http'',
      req_json = PyDict [(''cmd'', PyStr ''request.get''), (''session'', PyStr ''mine'')]\<rparr>"
  let ?w = "discover_proxies (\<lambda>x. x < 2) (initial_world (sconst 0))"
  let ?req = "[(''cmd'', PyStr ''request.get''),
          (''session'', PyStr ''flaresolverr-httpbin_org-10_0_0_1:8888''),
          (''proxy'', PyStr ''http://10.0.0.1:8888''),
          (''url'', PyStr ''https://httpsbin.org/https'')]"
  have f: "fst (controller_v1 urlparse_netloc ?rq ?w) = Inr ?req"
    by (simp add: controller_v1_def netloc_httpbin assign_domain_def create_assignment_def
      pick_proxy_def session_key_def discover_proxies_def initial_world_def probe_two
      random_choice_def randbelow_def replace_def V1RequestBase_def)
  then have r: "controller_v1 urlparse_netloc ?rq ?w
                = (Inr ?req, snd (controller_v1 urlparse_netloc ?rq ?w))"
    by (metis prod.collapse)
  have k: "''cmd'' \<notin> {''session'', ''proxy'', ''url''}" by simp
  from f payload_passthrough[OF r k] show ?thesis by (simp only: simp_thms)
qed

text \<open>
  C9, as amended. For a request whose JSON body is absent, falsy or an object, the handler
  without lines 75 and 76 returns the same outcome and leaves the same globals.
\<close>

theorem first_session_removable:
  assumes "is_dict (req_json rq) \<or> \<not> truthy (req_json rq)"
  shows "controller_v1_without_first_session netloc rq w = controller_v1 netloc rq w"
proof (cases "netloc (req_url rq)")
  case (Inl e)
  then show ?thesis by (simp add: controller_v1_def controller_v1_without_first_session_def)
next
  case (Inr d)
  obtain w1 where w1: "assign_domain d w = Inr w1" using assign_domain_total by blast
  show ?thesis
    by (simp add: controller_v1_on_dict[where netloc=netloc, OF assms Inr w1] controller_v1_without_on_dict[where netloc=netloc, OF assms Inr w1])
qed

theorem first_session_removable_witness:
  "(is_dict (PyDict [(''cmd'', PyStr ''request.get'')])
      \<or> \<not> truthy (PyDict [(''cmd'', PyStr ''request.get'')]))
   \<and> controller_v1_without_first_session urlparse_netloc
       \<lparr>req_url = ''http://httpbin.org/http'', req_json = PyDict [(''cmd'', PyStr ''request.get'')]\<rparr>
       (discover_proxies (\<lambda>x. x < 2) (initial_world (sconst 0)))
     = controller_v1 urlparse_netloc
       \<lparr>req_url = ''http://httpbin.org/http'', req_json = PyDict [(''cmd'', PyStr ''request.get'')]\<rparr>
       (discover_proxies (\<lambda>x. x < 2) (initial_world (sconst 0)))"
proof -
  have h: "is_dict (req_json \<lparr>req_url = ''http://httpbin.org/http'',
                req_json = PyDict [(''cmd'', PyStr ''request.get'')]\<rparr>)
           \<or> \<not> truthy (req_json \<lparr>req_url = ''http://httpbin.org/http'',
                req_json = PyDict [(''cmd'', PyStr ''request.get'')]\<rparr>)"
    by simp
  from first_session_removable[OF h] show ?thesis by simp
qed

text \<open>
  C9, as stated, fails: for a JSON body that is a non-empty array, line 76 raises
  \<^verbatim>\<open>TypeError\<close> before anything is stored; without lines 75 and 76 the handler stores the
  assignment first and here, the pool being empty, raises \<^verbatim>\<open>AttributeError\<close> at line 87.
\<close>

theorem first_session_not_dead:
  "controller_v1_without_first_session urlparse_netloc
     \<lparr>req_url = ''http://example.com/'', req_json = PyList [PyInt 1]\<rparr>
     (discover_proxies (\<lambda>x. False) (initial_world (sconst 0)))
   \<noteq> controller_v1 urlparse_netloc
     \<lparr>req_url = ''http://example.com/'', req_json = PyList [PyInt 1]\<rparr>
     (discover_proxies (\<lambda>x. False) (initial_world (sconst 0)))"
  by (simp add: controller_v1_def controller_v1_without_first_session_def netloc_example
      assign_domain_def create_assignment_def
      pick_proxy_def session_key_def discover_proxies_def initial_world_def probe_none)



section \<open>First requests for one domain, serial and interleaved\<close>

















section \<open>The session key\<close>

lemma replace_char:
  "replace s [c] [d] = map (\<lambda>x. if x = c then d else x) s"
  by (induction s) (simp_all add: replace_def)

lemma replace_scan_absent: "c \<notin> set s \<Longrightarrow> replace_scan c cs new s = s"
  by (induction s) auto

lemma str_nat_not: "(of_char c :: nat) < 48 \<or> 57 < (of_char c :: nat) \<Longrightarrow> c \<notin> set (str_nat n)"
  using str_nat_digits[of c n] by auto

lemma sanitize_proxy_url:
  "replace (replace (proxy_url x) ''.'' ''_'') ''http://'' '''' = ''10_0_'' @ str_nat x @ ''_1:8888''"
proof -
  have nodot: "map (\<lambda>c. if c = CHR ''.'' then CHR ''_'' else c) (str_nat x) = str_nat x"
    by (rule map_idI) (use str_nat_not[of "CHR ''.''" x] in auto)
  have noh: "CHR ''h'' \<notin> set (''10_0_'' @ str_nat x @ ''_1:8888'')"
    using str_nat_not[of "CHR ''h''" x] by simp
  have "replace (proxy_url x) ''.'' ''_'' = ''http://10_0_'' @ str_nat x @ ''_1:8888''"
    by (simp add: replace_char proxy_url_form nodot)
  then show ?thesis
    using replace_scan_absent[OF noh] by (simp add: replace_def)
qed

lemma split_at_first:
  assumes "c \<notin> set xs" and "c \<notin> set xs'" and "xs @ c # ys = xs' @ c # ys'"
  shows "xs = xs' \<and> ys = ys'"
  using assms
proof (induction xs arbitrary: xs')
  case Nil
  then show ?case by (cases xs') auto
next
  case (Cons a xs)
  then show ?case by (cases xs') auto
qed

lemma split_at_last:
  assumes "xs @ c # ys = xs' @ c # ys'" and "c \<notin> set ys" and "c \<notin> set ys'"
  shows "xs = xs' \<and> ys = ys'"
proof -
  from assms(1) have "rev (xs @ c # ys) = rev (xs' @ c # ys')" by simp
  then have eq: "rev ys @ c # rev xs = rev ys' @ c # rev xs'" by simp
  have a: "c \<notin> set (rev ys)" and b: "c \<notin> set (rev ys')" using assms(2,3) by simp_all
  from split_at_first[OF a b eq] show ?thesis by simp
qed

lemma dash_not_in_endpoint: "CHR ''-'' \<notin> set (''10_0_'' @ str_nat x @ ''_1:8888'')"
  using str_nat_not[of "CHR ''-''" x] by simp

lemma map_dot_inj:
  assumes "map (\<lambda>c. if c = CHR ''.'' then CHR ''_'' else c) d
         = map (\<lambda>c. if c = CHR ''.'' then CHR ''_'' else c) d'"
    and "CHR ''_'' \<notin> set d" and "CHR ''_'' \<notin> set d'"
  shows "d = d'"
  using assms
proof (induction d arbitrary: d')
  case Nil
  then show ?case by simp
next
  case (Cons x d)
  then obtain y e where d': "d' = y # e" by (cases d') auto
  with Cons.prems have "x = y" by (auto split: if_splits)
  moreover have "d = e" using Cons.IH[of e] Cons.prems d' by simp
  ultimately show ?case using d' by simp
qed

lemma session_key_endpoint:
  "session_key d (Some (proxy_url x))
   = Inr (''flaresolverr-'' @ replace d ''.'' ''_'' @ ''-'' @ ''10_0_'' @ str_nat x @ ''_1:8888'')"
  by (simp only: session_key_def sanitize_proxy_url option.case)

text \<open>
  C4, as amended. For proxies that are endpoints of a discovered pool and domains that
  contain no underscore, the session key determines both the domain and the proxy: pairs
  that differ in the domain, in the proxy or in both have different keys.
\<close>

theorem session_key_injective:
  assumes "p \<in> set (probe_all connect)" and "p' \<in> set (probe_all connect')"
    and "CHR ''_'' \<notin> set d" and "CHR ''_'' \<notin> set d'"
    and "session_key d (Some p) = session_key d' (Some p')"
  shows "d = d' \<and> p = p'"
proof -
  from assms(1) obtain x where p: "p = proxy_url x" by (auto simp: probe_all_eq)
  from assms(2) obtain x' where p': "p' = proxy_url x'" by (auto simp: probe_all_eq)
  let ?m = "map (\<lambda>c. if c = CHR ''.'' then CHR ''_'' else c)"
  let ?e = "\<lambda>x. ''10_0_'' @ str_nat x @ ''_1:8888''"
  from assms(5) have "?m d @ CHR ''-'' # ?e x = ?m d' @ CHR ''-'' # ?e x'"
    by (simp add: p p' session_key_endpoint replace_char)
  from split_at_last[OF this dash_not_in_endpoint dash_not_in_endpoint]
  have md: "?m d = ?m d'" and e: "?e x = ?e x'" by simp_all
  from e have "x = x'" by (simp add: str_nat_inj)
  moreover from md assms(3,4) have "d = d'" by (rule map_dot_inj)
  ultimately show ?thesis by (simp add: p p')
qed

text \<open>
  C4, as stated, fails: the domains \<^verbatim>\<open>a.b\<close> and \<^verbatim>\<open>a_b\<close> differ and have the same key
  with the same proxy, since the sanitisation maps \<^verbatim>\<open>.\<close> to \<^verbatim>\<open>_\<close>.
\<close>

theorem session_key_collision:
  "session_key ''a.b'' (Some ''http://10.0.0.1:8888'') = session_key ''a_b'' (Some ''http://10.0.0.1:8888'')
   \<and> ''a.b'' \<noteq> ''a_b''"
  by (simp add: session_key_def replace_def)

theorem session_key_injective_witness:
  "''http://10.0.0.1:8888'' \<in> set (probe_all (\<lambda>x. x < 2))
   \<and> ''http://10.0.1.1:8888'' \<in> set (probe_all (\<lambda>x. x < 2))
   \<and> session_key ''example.com'' (Some ''http://10.0.0.1:8888'')
       \<noteq> session_key ''example.com'' (Some ''http://10.0.1.1:8888'')
   \<and> session_key ''example.com'' (Some ''http://10.0.0.1:8888'')
       \<noteq> session_key ''example.org'' (Some ''http://10.0.0.1:8888'')"
proof -
  have a: "''http://10.0.0.1:8888'' \<in> set (probe_all (\<lambda>x. x < 2))"
    and b: "''http://10.0.1.1:8888'' \<in> set (probe_all (\<lambda>x. x < 2))"
    by (simp_all add: probe_two)
  have u: "CHR ''_'' \<notin> set ''example.com''" and v: "CHR ''_'' \<notin> set ''example.org''"
    by simp_all
  have "session_key ''example.com'' (Some ''http://10.0.0.1:8888'')
       \<noteq> session_key ''example.com'' (Some ''http://10.0.1.1:8888'')"
    using session_key_injective[OF a b u u] by auto
  moreover have "session_key ''example.com'' (Some ''http://10.0.0.1:8888'')
       \<noteq> session_key ''example.org'' (Some ''http://10.0.0.1:8888'')"
    using session_key_injective[OF a a u v] by auto
  ultimately show ?thesis using a b by simp
qed

end
